theory Spec2Isabelle
  imports Main "HOL-Library.Word"
begin

unbundle bit_operations_syntax

section \<open>Memory tags of smatch: an embedding of \<^verbatim>\<open>smatch_mtag.c\<close>\<close>

text \<open>
  \<^verbatim>\<open>smatch_mtag.c\<close> names memory locations by 63-bit tags. A tag is the start of
  the MD5 digest of a context string; tags are bound to variables in the per-variable
  state store, recorded in the \<^verbatim>\<open>mtag_about\<close> table and handed from callers to
  callees through the \<^verbatim>\<open>caller_info\<close> table.

  The development follows the file from top to bottom. Functions of the file are embedded
  under their own names. What the file calls but does not define (the expression
  helpers, the state store, the tables, the C library) is either a field of the record
  \<open>host\<close> below or a definition whose comment says where it comes from.
\<close>

type_synonym u8 = "8 word"
type_synonym u32 = "32 word"
type_synonym u64 = "64 word"

subsection \<open>The digest: MD5 (RFC 1321), as OpenSSL computes it\<close>

text \<open>
  \<^verbatim>\<open>str_to_tag\<close> calls \<^verbatim>\<open>MD5_Init\<close>, \<^verbatim>\<open>MD5_Update\<close> and \<^verbatim>\<open>MD5_Final\<close> of
  \<^verbatim>\<open>openssl/md5.h\<close>. The library is not part of smatch; the definitions below
  are RFC 1321: four auxiliary functions, the sixteen steps of each of the four rounds
  as rows \<open>(k, s, t)\<close> (message word, left rotation, additive constant), padding with
  \<open>0x80\<close>, zeros and the bit length in eight little-endian bytes.
\<close>

type_synonym md5_state = "u32 \<times> u32 \<times> u32 \<times> u32"

definition md5_F :: "u32 \<Rightarrow> u32 \<Rightarrow> u32 \<Rightarrow> u32" where
  "md5_F x y z = (x AND y) OR (NOT x AND z)"

definition md5_G :: "u32 \<Rightarrow> u32 \<Rightarrow> u32 \<Rightarrow> u32" where
  "md5_G x y z = (x AND z) OR (y AND NOT z)"

definition md5_H :: "u32 \<Rightarrow> u32 \<Rightarrow> u32 \<Rightarrow> u32" where
  "md5_H x y z = x XOR y XOR z"

definition md5_I :: "u32 \<Rightarrow> u32 \<Rightarrow> u32 \<Rightarrow> u32" where
  "md5_I x y z = y XOR (x OR NOT z)"

definition rotl32 :: "nat \<Rightarrow> u32 \<Rightarrow> u32" where
  "rotl32 n x = push_bit n x OR drop_bit (32 - n) x"

definition md5_table1 :: "(nat \<times> nat \<times> u32) list" where
  "md5_table1 =
    [(0, 7, 0xd76aa478), (1, 12, 0xe8c7b756), (2, 17, 0x242070db), (3, 22, 0xc1bdceee),
     (4, 7, 0xf57c0faf), (5, 12, 0x4787c62a), (6, 17, 0xa8304613), (7, 22, 0xfd469501),
     (8, 7, 0x698098d8), (9, 12, 0x8b44f7af), (10, 17, 0xffff5bb1), (11, 22, 0x895cd7be),
     (12, 7, 0x6b901122), (13, 12, 0xfd987193), (14, 17, 0xa679438e), (15, 22, 0x49b40821)]"

definition md5_table2 :: "(nat \<times> nat \<times> u32) list" where
  "md5_table2 =
    [(1, 5, 0xf61e2562), (6, 9, 0xc040b340), (11, 14, 0x265e5a51), (0, 20, 0xe9b6c7aa),
     (5, 5, 0xd62f105d), (10, 9, 0x02441453), (15, 14, 0xd8a1e681), (4, 20, 0xe7d3fbc8),
     (9, 5, 0x21e1cde6), (14, 9, 0xc33707d6), (3, 14, 0xf4d50d87), (8, 20, 0x455a14ed),
     (13, 5, 0xa9e3e905), (2, 9, 0xfcefa3f8), (7, 14, 0x676f02d9), (12, 20, 0x8d2a4c8a)]"

definition md5_table3 :: "(nat \<times> nat \<times> u32) list" where
  "md5_table3 =
    [(5, 4, 0xfffa3942), (8, 11, 0x8771f681), (11, 16, 0x6d9d6122), (14, 23, 0xfde5380c),
     (1, 4, 0xa4beea44), (4, 11, 0x4bdecfa9), (7, 16, 0xf6bb4b60), (10, 23, 0xbebfbc70),
     (13, 4, 0x289b7ec6), (0, 11, 0xeaa127fa), (3, 16, 0xd4ef3085), (6, 23, 0x04881d05),
     (9, 4, 0xd9d4d039), (12, 11, 0xe6db99e5), (15, 16, 0x1fa27cf8), (2, 23, 0xc4ac5665)]"

definition md5_table4 :: "(nat \<times> nat \<times> u32) list" where
  "md5_table4 =
    [(0, 6, 0xf4292244), (7, 10, 0x432aff97), (14, 15, 0xab9423a7), (5, 21, 0xfc93a039),
     (12, 6, 0x655b59c3), (3, 10, 0x8f0ccc92), (10, 15, 0xffeff47d), (1, 21, 0x85845dd1),
     (8, 6, 0x6fa87e4f), (15, 10, 0xfe2ce6e0), (6, 15, 0xa3014314), (13, 21, 0x4e0811a1),
     (4, 6, 0xf7537e82), (11, 10, 0xbd3af235), (2, 15, 0x2ad7d2bb), (9, 21, 0xeb86d391)]"

fun md5_step ::
  "(u32 \<Rightarrow> u32 \<Rightarrow> u32 \<Rightarrow> u32) \<Rightarrow> u32 list \<Rightarrow> nat \<times> nat \<times> u32 \<Rightarrow> md5_state \<Rightarrow> md5_state" where
  "md5_step f X (k, s, t) (a, b, c, d) = (d, b + rotl32 s (a + f b c d + X ! k + t), b, c)"

definition md5_rounds :: "u32 list \<Rightarrow> md5_state \<Rightarrow> md5_state" where
  "md5_rounds X st =
     fold (md5_step md5_I X) md5_table4
       (fold (md5_step md5_H X) md5_table3
          (fold (md5_step md5_G X) md5_table2
             (fold (md5_step md5_F X) md5_table1 st)))"

fun le32 :: "u8 list \<Rightarrow> u32" where
  "le32 [b0, b1, b2, b3] =
     ucast b0 OR push_bit 8 (ucast b1) OR push_bit 16 (ucast b2) OR push_bit 24 (ucast b3)"
| "le32 _ = 0"

function words_of :: "u8 list \<Rightarrow> u32 list" where
  "words_of bs = (if length bs < 4 then [] else le32 (take 4 bs) # words_of (drop 4 bs))"
  by pat_completeness auto
termination
  by (relation "measure length") auto

declare words_of.simps [simp del]

definition md5_block :: "md5_state \<Rightarrow> u8 list \<Rightarrow> md5_state" where
  "md5_block h blk =
     (case h of (a0, b0, c0, d0) \<Rightarrow>
        case md5_rounds (words_of blk) h of (a, b, c, d) \<Rightarrow>
          (a0 + a, b0 + b, c0 + c, d0 + d))"

function md5_body :: "md5_state \<Rightarrow> u8 list \<Rightarrow> md5_state" where
  "md5_body h bs =
     (if length bs < 64 then h else md5_body (md5_block h (take 64 bs)) (drop 64 bs))"
  by pat_completeness auto
termination
  by (relation "measure (\<lambda>(h, bs). length bs)") auto

declare md5_body.simps [simp del]

primrec le_bytes :: "nat \<Rightarrow> nat \<Rightarrow> u8 list" where
  "le_bytes 0 v = []"
| "le_bytes (Suc n) v = of_nat (v mod 256) # le_bytes n (v div 256)"

definition md5_pad :: "u8 list \<Rightarrow> u8 list" where
  "md5_pad m =
     m @ [0x80] @ replicate ((119 - length m mod 64) mod 64) 0 @
     le_bytes 8 (8 * length m mod 2 ^ 64)"

text \<open>
  The context \<^verbatim>\<open>MD5_CTX\<close> is modelled by the bytes absorbed so far; \<^verbatim>\<open>MD5_Final\<close>
  pads them, runs the compression function over the 64-byte blocks and writes the four
  state words as sixteen bytes, least significant byte first.
\<close>

type_synonym MD5_CTX = "u8 list"

definition MD5_Init :: MD5_CTX where
  "MD5_Init = []"

definition MD5_Update :: "MD5_CTX \<Rightarrow> u8 list \<Rightarrow> nat \<Rightarrow> MD5_CTX" where
  "MD5_Update ctx data len = ctx @ take len data"

definition md5_init :: md5_state where
  "md5_init = (0x67452301, 0xefcdab89, 0x98badcfe, 0x10325476)"

definition MD5_Final :: "MD5_CTX \<Rightarrow> u8 list" where
  "MD5_Final ctx =
     (case md5_body md5_init (md5_pad ctx) of (a, b, c, d) \<Rightarrow>
        le_bytes 4 (unat a) @ le_bytes 4 (unat b) @ le_bytes 4 (unat c) @ le_bytes 4 (unat d))"

subsection \<open>\<^verbatim>\<open>str_to_tag\<close>\<close>

text \<open>
  \<^verbatim>\<open>
  static mtag_t str_to_tag(const char *str)
  {
          unsigned char c[MD5_DIGEST_LENGTH];
          unsigned long long *tag = (unsigned long long *)&c;
          ...
          len = strlen(str);
          MD5_Init(&mdContext);
          MD5_Update(&mdContext, str, len);
          MD5_Final(c, &mdContext);

          *tag &= ~(1ULL << 63);

          return *tag;
  }
  \<close>
  A C string is modelled by the \<open>string\<close> of its bytes before the terminating NUL, so
  \<^verbatim>\<open>strlen\<close> is \<open>length\<close> (the \<^verbatim>\<open>int len\<close> holds it exactly below \<open>2^31\<close> bytes,
  and every caller in the file passes a 256-byte buffer). The cast reads the first eight
  digest bytes in the byte order of the host; \<open>le64\<close> is that read on a little-endian
  host such as x86-64. \<^verbatim>\<open>mtag_t\<close> is a 64-bit integer.
\<close>

type_synonym mtag_t = u64

definition le64 :: "u8 list \<Rightarrow> u64" where
  "le64 bs = foldr (\<lambda>b acc. ucast b OR push_bit 8 acc) bs 0"

definition str_to_tag :: "string \<Rightarrow> mtag_t" where
  "str_to_tag str =
     (let len = length str;
          mdContext = MD5_Update MD5_Init (map of_char str) len;
          c = MD5_Final mdContext;
          tag = le64 (take 8 c)
      in tag AND NOT (push_bit 63 1))"

subsection \<open>The C library: \<^verbatim>\<open>snprintf\<close> and \<^verbatim>\<open>atoll\<close>\<close>

text \<open>
  \<^verbatim>\<open>snprintf(buf, size, ...)\<close> stores at most \<open>size - 1\<close> bytes of the formatted text
  and the terminating NUL: \<open>snprintf n s\<close> is the string the buffer holds when the
  format expands to \<open>s\<close>. A \<^verbatim>\<open>%s\<close> whose argument is \<^verbatim>\<open>NULL\<close> prints
  \<^verbatim>\<open>(null)\<close> in the GNU C library (ISO C leaves it undefined); \<^verbatim>\<open>%lld\<close> prints a
  \<^verbatim>\<open>long long\<close> in decimal, with a minus sign when it is negative.
\<close>

definition snprintf :: "nat \<Rightarrow> string \<Rightarrow> string" where
  "snprintf n s = take (n - 1) s"

definition fmt_s :: "string option \<Rightarrow> string" where
  "fmt_s p = (case p of None \<Rightarrow> ''(null)'' | Some s \<Rightarrow> s)"

definition digit_char :: "nat \<Rightarrow> char" where
  "digit_char d = char_of (48 + d)"

function fmt_u :: "nat \<Rightarrow> string" where
  "fmt_u n = (if n < 10 then [digit_char n] else fmt_u (n div 10) @ [digit_char (n mod 10)])"
  by pat_completeness auto
termination
  by (relation "measure id") auto

declare fmt_u.simps [simp del]

definition fmt_lld :: "int \<Rightarrow> string" where
  "fmt_lld i = (if i < 0 then CHR ''-'' # fmt_u (nat (- i)) else fmt_u (nat i))"

text \<open>
  \<^verbatim>\<open>atoll\<close> is \<^verbatim>\<open>strtoll(nptr, NULL, 10)\<close>: white space is skipped, one sign is
  read, then decimal digits up to the first other byte. A value outside \<^verbatim>\<open>long long\<close>
  is undefined in ISO C; the GNU C library returns \<^verbatim>\<open>LLONG_MAX\<close> or
  \<^verbatim>\<open>LLONG_MIN\<close>, which is what \<open>atoll\<close> does here.
\<close>

definition isspace :: "char \<Rightarrow> bool" where
  "isspace c = (c = CHR '' '' \<or> (9 :: nat) \<le> of_char c \<and> of_char c \<le> (13 :: nat))"

definition isdigit :: "char \<Rightarrow> bool" where
  "isdigit c = ((48 :: nat) \<le> of_char c \<and> of_char c \<le> (57 :: nat))"

fun digits_value :: "int \<Rightarrow> string \<Rightarrow> int" where
  "digits_value acc [] = acc"
| "digits_value acc (c # cs) =
     (if isdigit c then digits_value (10 * acc + (of_char c - 48)) cs else acc)"

definition LLONG_MAX :: int where
  "LLONG_MAX = 2 ^ 63 - 1"

definition LLONG_MIN :: int where
  "LLONG_MIN = - (2 ^ 63)"

definition strtoll :: "string \<Rightarrow> int" where
  "strtoll nptr =
     (case dropWhile isspace nptr of
        [] \<Rightarrow> 0
      | c # cs \<Rightarrow>
          if c = CHR ''-'' then max LLONG_MIN (- digits_value 0 cs)
          else if c = CHR ''+'' then min LLONG_MAX (digits_value 0 cs)
          else min LLONG_MAX (digits_value 0 (c # cs)))"

definition atoll :: "string \<Rightarrow> mtag_t" where
  "atoll nptr = word_of_int (strtoll nptr)"

subsection \<open>Symbols and expressions of the host\<close>

text \<open>
  The file reads two fields of a \<^verbatim>\<open>struct symbol\<close>: \<^verbatim>\<open>sym->ident\<close> (a pointer, its
  \<^verbatim>\<open>name\<close> is read when it is not \<^verbatim>\<open>NULL\<close>) and \<^verbatim>\<open>sym->ctype.modifiers\<close>, a
  bit set tested against \<^verbatim>\<open>MOD_TOPLEVEL\<close> and \<^verbatim>\<open>MOD_STATIC\<close>.
\<close>

record symbol =
  ident :: "string option"
  modifiers :: u64

text \<open>
  Modelled from the spec: \<^verbatim>\<open>MOD_STATIC\<close> and \<^verbatim>\<open>MOD_TOPLEVEL\<close> are declared in
  \<^verbatim>\<open>symbol.h\<close>, which is not among the sources. The spec only says that a symbol
  has file scope or not, and internal or external linkage; the two masks below are two
  distinct bits standing for these flags, and no result depends on which bits they are.
\<close>

definition MOD_STATIC :: u64 where
  "MOD_STATIC = 0x0004"

definition MOD_TOPLEVEL :: u64 where
  "MOD_TOPLEVEL = 0x800000"

text \<open>
  A \<^verbatim>\<open>struct expression\<close> is a tagged union; the constructors are the values of
  \<^verbatim>\<open>expr->type\<close> that the file tests or that its inputs are built from, with the
  fields the file reads: \<^verbatim>\<open>op\<close>, \<^verbatim>\<open>left\<close>, \<^verbatim>\<open>right\<close>, \<^verbatim>\<open>unop\<close>, \<^verbatim>\<open>fn\<close>,
  \<^verbatim>\<open>args\<close> and \<^verbatim>\<open>symbol\<close> (which may be \<^verbatim>\<open>NULL\<close>). An operator is the \<^verbatim>\<open>int\<close>
  of its character, so \<^verbatim>\<open>'='\<close> is \<open>of_char CHR ''=''\<close>.
\<close>

datatype expression =
    EXPR_VALUE int
  | EXPR_SYMBOL "symbol option"
  | EXPR_PREOP int expression
  | EXPR_BINOP int expression expression
  | EXPR_ASSIGNMENT int expression expression
  | EXPR_DEREF expression string
  | EXPR_CAST expression
  | EXPR_CALL expression "expression list"

text \<open>
  What the file calls in the host and the sources do not contain is a field of \<open>host\<close>:
  the name of the file and of the function under analysis (\<^verbatim>\<open>get_filename()\<close>,
  \<^verbatim>\<open>get_function()\<close>), \<^verbatim>\<open>strip_expr\<close>, the renderer \<^verbatim>\<open>expr_to_str_sym\<close> (text and
  symbol of an expression, either of which may be \<^verbatim>\<open>NULL\<close>), the variable resolver
  \<^verbatim>\<open>expr_to_var_sym\<close> behind \<^verbatim>\<open>get_state_expr\<close>, and \<^verbatim>\<open>parse_call_math_rl\<close>
  (\<open>None\<close> when it returns 0). Every theorem below holds for every host.
\<close>

record host =
  get_filename :: string
  get_function :: string
  strip_expr :: "expression \<Rightarrow> expression"
  expr_to_str_sym :: "expression \<Rightarrow> string option \<times> symbol option"
  expr_to_var_sym :: "expression \<Rightarrow> string option \<times> symbol option"
  parse_call_math_rl :: "expression \<Rightarrow> string \<Rightarrow> (int \<times> int) list option"

text \<open>
  Modelled from the spec: \<^verbatim>\<open>expr_to_str\<close> is not among the sources. The spec has one
  rendering of an expression to its canonical text, used for the destination and for the
  source of an assignment; \<open>expr_to_str\<close> is the text that \<open>expr_to_str_sym\<close> gives.
\<close>

definition expr_to_str :: "host \<Rightarrow> expression \<Rightarrow> string option" where
  "expr_to_str h e = fst (expr_to_str_sym h e)"

subsection \<open>The state of the analysis\<close>

text \<open>
  A \<^verbatim>\<open>struct smatch_state\<close> has a \<^verbatim>\<open>name\<close> and a \<^verbatim>\<open>data\<close> pointer; the states of
  this file point to one \<^verbatim>\<open>mtag_t\<close>, states the host makes itself (merged, undefined)
  have no data. The state of the analysis is the static \<^verbatim>\<open>my_id\<close>, the per-variable
  state store and the two tables the file inserts into.
\<close>

record smatch_state =
  name :: string
  data :: "mtag_t option"

datatype info_type = BUF_SIZE | MEMORY_TAG

record analysis =
  my_id :: int
  stree :: "int \<times> string \<times> symbol \<Rightarrow> smatch_state option"
  mtag_about :: "(mtag_t \<times> string option \<times> string option) list"
  caller_info :: "(expression \<times> info_type \<times> int \<times> string \<times> string) list"

text \<open>
  Modelled from the spec: \<^verbatim>\<open>set_state\<close>, \<^verbatim>\<open>get_state_expr\<close>,
  \<^verbatim>\<open>sql_insert_mtag_about\<close> and \<^verbatim>\<open>sql_insert_caller_info\<close> are not among the
  sources. The spec gives the store as \<open>set(pass-id, variable-name, enclosing-symbol,
  state-value)\<close> and \<open>get(pass-id, variable-name-or-expression)\<close>, the last writer winning
  per key, and the two tables as append-only lists of rows \<open>(tag, label, origin)\<close> and
  \<open>(call-site, kind, parameter-index, key, value)\<close>. \<open>get_state_expr\<close> strips the
  expression, resolves it to a variable name and symbol and looks that binding up; an
  expression that is no variable has no state.
\<close>

definition set_state :: "int \<Rightarrow> string \<Rightarrow> symbol \<Rightarrow> smatch_state \<Rightarrow> analysis \<Rightarrow> analysis" where
  "set_state owner nm sy state st = st\<lparr>stree := (stree st)((owner, nm, sy) \<mapsto> state)\<rparr>"

definition get_state_expr :: "host \<Rightarrow> analysis \<Rightarrow> int \<Rightarrow> expression \<Rightarrow> smatch_state option" where
  "get_state_expr h st owner e =
     (case expr_to_var_sym h (strip_expr h e) of
        (Some nm, Some sy) \<Rightarrow> stree st (owner, nm, sy)
      | _ \<Rightarrow> None)"

definition sql_insert_mtag_about ::
  "mtag_t \<Rightarrow> string option \<Rightarrow> string option \<Rightarrow> analysis \<Rightarrow> analysis" where
  "sql_insert_mtag_about tag left_name right_name st =
     st\<lparr>mtag_about := mtag_about st @ [(tag, left_name, right_name)]\<rparr>"

definition sql_insert_caller_info ::
  "expression \<Rightarrow> info_type \<Rightarrow> int \<Rightarrow> string \<Rightarrow> string \<Rightarrow> analysis \<Rightarrow> analysis" where
  "sql_insert_caller_info call type param key val st =
     st\<lparr>caller_info := caller_info st @ [(call, type, param, key, val)]\<rparr>"

subsection \<open>The functions of \<^verbatim>\<open>smatch_mtag.c\<close>\<close>

text \<open>
  \<^verbatim>\<open>
  static struct smatch_state *alloc_tag_state(mtag_t tag)
  {
          ...
          char buf[64];

          state = __alloc_smatch_state(0);
          snprintf(buf, sizeof(buf), "%lld", tag);
          state->name = alloc_sname(buf);
          state->data = malloc(sizeof(mtag_t));
          *(mtag_t *)state->data = tag;
          return state;
  }
  \<close>
\<close>

definition alloc_tag_state :: "mtag_t \<Rightarrow> smatch_state" where
  "alloc_tag_state tag = \<lparr>name = snprintf 64 (fmt_lld (sint tag)), data = Some tag\<rparr>"

text \<open>
  \<^verbatim>\<open>
  static void alloc_assign(const char *fn, struct expression *expr, void *unused)
  {
          ...
          char buf[256];

          if (expr->type != EXPR_ASSIGNMENT || expr->op != '=')
                  return;
          left = strip_expr(expr->left);
          right = strip_expr(expr->right);
          if (right->type != EXPR_CALL || right->fn->type != EXPR_SYMBOL)
                  return;

          left_name = expr_to_str_sym(left, &left_sym);
          right_name = expr_to_str(right);

          snprintf(buf, sizeof(buf), "%s %s %s %s", get_filename(), get_function(),
                   left_name, right_name);
          tag = str_to_tag(buf);

          sql_insert_mtag_about(tag, left_name, right_name);

          if (left_name && left_sym)
                  set_state(my_id, left_name, left_sym, alloc_tag_state(tag));
          ...
  }
  \<close>
  \<open>alloc_context\<close> is the text that the format expands to, before it is cut to the
  buffer.
\<close>

definition alloc_context :: "host \<Rightarrow> string option \<Rightarrow> string option \<Rightarrow> string" where
  "alloc_context h left_name right_name =
     get_filename h @ '' '' @ get_function h @ '' '' @ fmt_s left_name @ '' '' @ fmt_s right_name"

definition alloc_assign :: "host \<Rightarrow> string \<Rightarrow> expression \<Rightarrow> analysis \<Rightarrow> analysis" where
  "alloc_assign h fn expr st =
     (case expr of
        EXPR_ASSIGNMENT op l r \<Rightarrow>
          if op \<noteq> of_char CHR ''='' then st
          else
            (let left = strip_expr h l; right = strip_expr h r in
             case right of
               EXPR_CALL f args \<Rightarrow>
                 (case f of
                    EXPR_SYMBOL fsym \<Rightarrow>
                      (let (left_name, left_sym) = expr_to_str_sym h left;
                           right_name = expr_to_str h right;
                           buf = snprintf 256 (alloc_context h left_name right_name);
                           tag = str_to_tag buf;
                           st' = sql_insert_mtag_about tag left_name right_name st
                       in case (left_name, left_sym) of
                            (Some nm, Some sy) \<Rightarrow> set_state (my_id st') nm sy (alloc_tag_state tag) st'
                          | _ \<Rightarrow> st')
                  | _ \<Rightarrow> st)
             | _ \<Rightarrow> st)
      | _ \<Rightarrow> st)"

text \<open>
  \<^verbatim>\<open>
  int get_toplevel_mtag(struct symbol *sym, mtag_t *tag)
  {
          char buf[256];

          if (!sym)
                  return 0;
          if (!sym->ident ||
              !(sym->ctype.modifiers & MOD_TOPLEVEL))
                  return 0;

          snprintf(buf, sizeof(buf), "%s %s",
                   (sym->ctype.modifiers & MOD_STATIC) ? get_filename() : "extern",
                   sym->ident->name);
          *tag = str_to_tag(buf);
          return 1;
  }
  \<close>
  The result is \<open>None\<close> for the return value 0 and \<open>Some\<close> of the tag written to
  \<^verbatim>\<open>*tag\<close> for the return value 1. \<open>toplevel_qualifier\<close> is the first \<^verbatim>\<open>%s\<close>,
  \<open>toplevel_context\<close> the text that the format expands to.
\<close>

definition toplevel_qualifier :: "host \<Rightarrow> symbol \<Rightarrow> string" where
  "toplevel_qualifier h sy =
     (if modifiers sy AND MOD_STATIC \<noteq> 0 then get_filename h else ''extern'')"

definition toplevel_context :: "host \<Rightarrow> symbol \<Rightarrow> string \<Rightarrow> string" where
  "toplevel_context h sy nm = toplevel_qualifier h sy @ '' '' @ nm"

definition get_toplevel_mtag :: "host \<Rightarrow> symbol option \<Rightarrow> mtag_t option" where
  "get_toplevel_mtag h sym_ptr =
     (case sym_ptr of
        None \<Rightarrow> None
      | Some sy \<Rightarrow>
          (case ident sy of
             None \<Rightarrow> None
           | Some nm \<Rightarrow>
               if modifiers sy AND MOD_TOPLEVEL = 0 then None
               else Some (str_to_tag (snprintf 256 (toplevel_context h sy nm)))))"

text \<open>
  \<^verbatim>\<open>
  static void global_variable(struct symbol *sym)
  {
          mtag_t tag;

          if (!get_toplevel_mtag(sym, &tag))
                  return;

          sql_insert_mtag_about(tag,
                                sym->ident->name,
                                (sym->ctype.modifiers & MOD_STATIC) ? get_filename() : "extern");
  }
  \<close>
\<close>

definition global_variable :: "host \<Rightarrow> symbol option \<Rightarrow> analysis \<Rightarrow> analysis" where
  "global_variable h sym_ptr st =
     (case get_toplevel_mtag h sym_ptr of
        None \<Rightarrow> st
      | Some tag \<Rightarrow>
          (case sym_ptr of
             None \<Rightarrow> st
           | Some sy \<Rightarrow> sql_insert_mtag_about tag (ident sy) (Some (toplevel_qualifier h sy)) st))"

text \<open>
  \<^verbatim>\<open>
  static void db_returns_buf_size(struct expression *expr, int param, char *unused, char *math)
  {
          struct expression *call;
          struct range_list *rl;

          if (expr->type != EXPR_ASSIGNMENT)
                  return;
          call = strip_expr(expr->right);

          if (!parse_call_math_rl(call, math, &rl))
                  return;
  //      rl = cast_rl(&int_ctype, rl);
  //      set_state_expr(my_size_id, expr->left, alloc_estate_rl(rl));
  }
  \<close>
\<close>

definition db_returns_buf_size ::
  "host \<Rightarrow> expression \<Rightarrow> int \<Rightarrow> string \<Rightarrow> string \<Rightarrow> analysis \<Rightarrow> analysis" where
  "db_returns_buf_size h expr param unused math st =
     (case expr of
        EXPR_ASSIGNMENT op l r \<Rightarrow>
          (let call = strip_expr h r in
           case parse_call_math_rl h call math of
             None \<Rightarrow> st
           | Some rl \<Rightarrow> st)
      | _ \<Rightarrow> st)"

text \<open>
  \<^verbatim>\<open>
  static void match_call_info(struct expression *expr)
  {
          struct smatch_state *state;
          struct expression *arg;
          int i = -1;

          FOR_EACH_PTR(expr->args, arg) {
                  i++;
                  state = get_state_expr(my_id, arg);
                  if (!state || !state->data)
                          continue;
                  sql_insert_caller_info(expr, MEMORY_TAG, i, "$", state->name);
          } END_FOR_EACH_PTR(arg);
  }
  \<close>
  \<open>match_call_info_loop\<close> is the loop from a value of \<^verbatim>\<open>i\<close> over the arguments that
  remain. The hook is called on call expressions; another expression has no
  \<^verbatim>\<open>args\<close>.
\<close>

fun match_call_info_loop ::
  "host \<Rightarrow> expression \<Rightarrow> int \<Rightarrow> expression list \<Rightarrow> analysis \<Rightarrow> analysis" where
  "match_call_info_loop h expr i [] st = st"
| "match_call_info_loop h expr i (arg # args) st =
     (case get_state_expr h st (my_id st) arg of
        None \<Rightarrow> match_call_info_loop h expr (i + 1) args st
      | Some state \<Rightarrow>
          (case data state of
             None \<Rightarrow> match_call_info_loop h expr (i + 1) args st
           | Some tag \<Rightarrow>
               match_call_info_loop h expr (i + 1) args
                 (sql_insert_caller_info expr MEMORY_TAG (i + 1) ''$'' (name state) st)))"

definition match_call_info :: "host \<Rightarrow> expression \<Rightarrow> analysis \<Rightarrow> analysis" where
  "match_call_info h expr st =
     (case expr of
        EXPR_CALL f args \<Rightarrow> match_call_info_loop h expr (- 1) args st
      | _ \<Rightarrow> st)"

text \<open>
  \<^verbatim>\<open>
  static void save_caller_info(const char *name, struct symbol *sym, char *key, char *value)
  {
          struct smatch_state *state;
          char fullname[256];
          mtag_t tag;

          if (strncmp(key, "$", 1) != 0)
                  return;

          tag = atoll(value);
          snprintf(fullname, 256, "%s%s", name, key + 1);
          state = alloc_tag_state(tag);
          set_state(my_id, fullname, sym, state);
  }
  \<close>
\<close>

definition save_caller_info :: "string \<Rightarrow> symbol \<Rightarrow> string \<Rightarrow> string \<Rightarrow> analysis \<Rightarrow> analysis" where
  "save_caller_info nm sy key val st =
     (if take 1 key \<noteq> ''$'' then st
      else
        (let tag = atoll val;
             fullname = snprintf 256 (nm @ drop 1 key);
             state = alloc_tag_state tag
         in set_state (my_id st) fullname sy state st))"

text \<open>
  \<^verbatim>\<open>
  int get_mtag(struct expression *expr, mtag_t *tag)
  {
          expr = strip_expr(expr);
          if (expr->type == EXPR_PREOP && expr->op == '&')
                  expr = strip_expr(expr->unop);
          if (expr->type == EXPR_SYMBOL &&
              get_toplevel_mtag(expr->symbol, tag))
                  return 1;
          return 0;
  }
  \<close>
\<close>

definition strip_address_of :: "host \<Rightarrow> expression \<Rightarrow> expression" where
  "strip_address_of h expr =
     (case expr of
        EXPR_PREOP op unop \<Rightarrow> if op = of_char CHR ''&'' then strip_expr h unop else expr
      | _ \<Rightarrow> expr)"

definition get_mtag :: "host \<Rightarrow> expression \<Rightarrow> mtag_t option" where
  "get_mtag h expr =
     (case strip_address_of h (strip_expr h expr) of
        EXPR_SYMBOL sym_ptr \<Rightarrow> get_toplevel_mtag h sym_ptr
      | _ \<Rightarrow> None)"

text \<open>
  \<^verbatim>\<open>register_mtag\<close> stores the identifier of the pass in \<^verbatim>\<open>my_id\<close> and hands the
  functions above to the host: \<^verbatim>\<open>global_variable\<close> for every symbol,
  \<^verbatim>\<open>alloc_assign\<close> for the assignments from \<^verbatim>\<open>kmalloc\<close> and \<^verbatim>\<open>kzalloc\<close>,
  \<^verbatim>\<open>match_call_info\<close> for every call, \<^verbatim>\<open>save_caller_info\<close> for the
  \<^verbatim>\<open>MEMORY_TAG\<close> rows of the function under analysis. The dispatch is the host's.
\<close>

definition register_mtag :: "int \<Rightarrow> analysis \<Rightarrow> analysis" where
  "register_mtag i st = st\<lparr>my_id := i\<rparr>"

subsection \<open>A host and inputs for concrete runs\<close>

text \<open>
  Modelled from the spec: the expression helpers of the host are not among the sources.
  The spec has a collaborator that strips parentheses and cast wrappers and renders an
  expression to a stable string. \<open>spec_strip_expr\<close> removes casts and parentheses
  (a parenthesis is the prefix operator \<^verbatim>\<open>'('\<close>); \<open>spec_text\<close> renders constants,
  named symbols, prefix operators, member accesses and calls; \<open>spec_sym\<close> is the symbol
  an expression starts from, and a call starts from none. They are used to run the
  functions above on concrete inputs only.
\<close>

fun spec_strip_expr :: "expression \<Rightarrow> expression" where
  "spec_strip_expr (EXPR_CAST e) = spec_strip_expr e"
| "spec_strip_expr (EXPR_PREOP op e) =
     (if op = of_char CHR ''('' then spec_strip_expr e else EXPR_PREOP op e)"
| "spec_strip_expr e = e"

fun join_args :: "string list \<Rightarrow> string" where
  "join_args [] = []"
| "join_args [a] = a"
| "join_args (a # b # bs) = a @ '', '' @ join_args (b # bs)"

fun spec_text :: "expression \<Rightarrow> string option" where
  "spec_text (EXPR_VALUE v) = Some (fmt_lld v)"
| "spec_text (EXPR_SYMBOL p) = (case p of None \<Rightarrow> None | Some sy \<Rightarrow> ident sy)"
| "spec_text (EXPR_PREOP op e) = map_option (\<lambda>t. char_of op # t) (spec_text e)"
| "spec_text (EXPR_DEREF e m) = map_option (\<lambda>t. t @ ''.'' @ m) (spec_text e)"
| "spec_text (EXPR_CALL f args) =
     (case spec_text f of
        None \<Rightarrow> None
      | Some t \<Rightarrow>
          (case those (map spec_text args) of
             None \<Rightarrow> None
           | Some ts \<Rightarrow> Some (t @ ''('' @ join_args ts @ '')'')))"
| "spec_text e = None"

fun spec_sym :: "expression \<Rightarrow> symbol option" where
  "spec_sym (EXPR_SYMBOL p) = p"
| "spec_sym (EXPR_PREOP op e) = spec_sym e"
| "spec_sym (EXPR_DEREF e m) = spec_sym e"
| "spec_sym e = None"

definition spec_expr_to_str_sym :: "expression \<Rightarrow> string option \<times> symbol option" where
  "spec_expr_to_str_sym e = (spec_text e, spec_sym e)"

definition spec_expr_to_var_sym :: "expression \<Rightarrow> string option \<times> symbol option" where
  "spec_expr_to_var_sym e =
     (case e of EXPR_SYMBOL p \<Rightarrow> (spec_text e, p) | _ \<Rightarrow> (None, None))"

definition spec_host :: "string \<Rightarrow> string \<Rightarrow> host" where
  "spec_host file func =
     \<lparr>get_filename = file, get_function = func, strip_expr = spec_strip_expr,
      expr_to_str_sym = spec_expr_to_str_sym, expr_to_var_sym = spec_expr_to_var_sym,
      parse_call_math_rl = (\<lambda>call math. None)\<rparr>"

definition start :: analysis where
  "start = \<lparr>my_id = 0, stree = Map.empty, mtag_about = [], caller_info = []\<rparr>"

text \<open>
  The inputs of the runs: a local variable and a toplevel symbol of a given name with
  external or internal linkage, a call, and a plain assignment.
\<close>

definition local_sym :: "string \<Rightarrow> symbol" where
  "local_sym nm = \<lparr>ident = Some nm, modifiers = 0\<rparr>"

definition extern_sym :: "string \<Rightarrow> symbol" where
  "extern_sym nm = \<lparr>ident = Some nm, modifiers = MOD_TOPLEVEL\<rparr>"

definition static_sym :: "string \<Rightarrow> symbol" where
  "static_sym nm = \<lparr>ident = Some nm, modifiers = MOD_TOPLEVEL OR MOD_STATIC\<rparr>"

definition var :: "symbol \<Rightarrow> expression" where
  "var sy = EXPR_SYMBOL (Some sy)"

definition call :: "string \<Rightarrow> expression list \<Rightarrow> expression" where
  "call fn args = EXPR_CALL (var (extern_sym fn)) args"

definition assign :: "expression \<Rightarrow> expression \<Rightarrow> expression" where
  "assign l r = EXPR_ASSIGNMENT (of_char CHR ''='') l r"

text \<open>
  Inputs that overflow the 256-byte buffers: an argument whose name has 233 bytes, which
  makes the context of \<^verbatim>\<open>d = kmalloc(...)\<close> in \<^verbatim>\<open>probe\<close> of \<^verbatim>\<open>drv.c\<close> 256 bytes
  long; a parameter name of 256 bytes; two paths of 259 bytes that differ in their last
  three bytes only.
\<close>

definition long_arg :: string where
  "long_arg = replicate 233 CHR ''n''"

definition long_context :: string where
  "long_context = ''drv.c probe d kmalloc('' @ long_arg @ '')''"

definition long_param :: string where
  "long_param = replicate 256 CHR ''p''"

definition long_path :: "string \<Rightarrow> string" where
  "long_path file = replicate 255 CHR ''a'' @ file"

subsection \<open>The properties of the spec, as definitions\<close>

text \<open>
  The states of this file in the store show their tag as their name: the name of every
  state with data is the decimal text of that tag. The store starts empty and the file
  only adds states made by \<open>alloc_tag_state\<close>, so the analysis keeps this.
\<close>

definition tag_states_ok :: "analysis \<Rightarrow> bool" where
  "tag_states_ok st =
     (\<forall>k state tag. stree st k = Some state \<longrightarrow> data state = Some tag \<longrightarrow>
        name state = fmt_lld (sint tag))"

text \<open>
  The emission of the spec, in its words: for every positional argument that has a bound
  tag state, one row keyed by the position of the argument whose value is the decimal
  text of the tag; no row for another argument.
\<close>

definition spec_caller_row ::
  "host \<Rightarrow> analysis \<Rightarrow> expression \<Rightarrow> nat \<times> expression \<Rightarrow>
   (expression \<times> info_type \<times> int \<times> string \<times> string) list" where
  "spec_caller_row h st call_site p =
     (case get_state_expr h st (my_id st) (snd p) of
        None \<Rightarrow> []
      | Some state \<Rightarrow>
          (case data state of
             None \<Rightarrow> []
           | Some tag \<Rightarrow> [(call_site, MEMORY_TAG, int (fst p), ''$'', fmt_lld (sint tag))]))"

definition spec_caller_rows ::
  "host \<Rightarrow> analysis \<Rightarrow> expression \<Rightarrow> expression list \<Rightarrow>
   (expression \<times> info_type \<times> int \<times> string \<times> string) list" where
  "spec_caller_rows h st call_site args =
     concat (map (spec_caller_row h st call_site) (enumerate 0 args))"

text \<open>
  Two strings of 128 bytes with the same MD5 digest (the collision of Wang and Yu, 2005);
  neither contains a NUL byte, so both are C strings.
\<close>

definition collision_a :: string where
  "collision_a =
     [CHR 0xd1, CHR 0x31, CHR 0xdd, CHR 0x02, CHR 0xc5, CHR 0xe6, CHR 0xee, CHR 0xc4,
      CHR 0x69, CHR 0x3d, CHR 0x9a, CHR 0x06, CHR 0x98, CHR 0xaf, CHR 0xf9, CHR 0x5c,
      CHR 0x2f, CHR 0xca, CHR 0xb5, CHR 0x87, CHR 0x12, CHR 0x46, CHR 0x7e, CHR 0xab,
      CHR 0x40, CHR 0x04, CHR 0x58, CHR 0x3e, CHR 0xb8, CHR 0xfb, CHR 0x7f, CHR 0x89,
      CHR 0x55, CHR 0xad, CHR 0x34, CHR 0x06, CHR 0x09, CHR 0xf4, CHR 0xb3, CHR 0x02,
      CHR 0x83, CHR 0xe4, CHR 0x88, CHR 0x83, CHR 0x25, CHR 0x71, CHR 0x41, CHR 0x5a,
      CHR 0x08, CHR 0x51, CHR 0x25, CHR 0xe8, CHR 0xf7, CHR 0xcd, CHR 0xc9, CHR 0x9f,
      CHR 0xd9, CHR 0x1d, CHR 0xbd, CHR 0xf2, CHR 0x80, CHR 0x37, CHR 0x3c, CHR 0x5b,
      CHR 0xd8, CHR 0x82, CHR 0x3e, CHR 0x31, CHR 0x56, CHR 0x34, CHR 0x8f, CHR 0x5b,
      CHR 0xae, CHR 0x6d, CHR 0xac, CHR 0xd4, CHR 0x36, CHR 0xc9, CHR 0x19, CHR 0xc6,
      CHR 0xdd, CHR 0x53, CHR 0xe2, CHR 0xb4, CHR 0x87, CHR 0xda, CHR 0x03, CHR 0xfd,
      CHR 0x02, CHR 0x39, CHR 0x63, CHR 0x06, CHR 0xd2, CHR 0x48, CHR 0xcd, CHR 0xa0,
      CHR 0xe9, CHR 0x9f, CHR 0x33, CHR 0x42, CHR 0x0f, CHR 0x57, CHR 0x7e, CHR 0xe8,
      CHR 0xce, CHR 0x54, CHR 0xb6, CHR 0x70, CHR 0x80, CHR 0xa8, CHR 0x0d, CHR 0x1e,
      CHR 0xc6, CHR 0x98, CHR 0x21, CHR 0xbc, CHR 0xb6, CHR 0xa8, CHR 0x83, CHR 0x93,
      CHR 0x96, CHR 0xf9, CHR 0x65, CHR 0x2b, CHR 0x6f, CHR 0xf7, CHR 0x2a, CHR 0x70]"

definition collision_b :: string where
  "collision_b =
     [CHR 0xd1, CHR 0x31, CHR 0xdd, CHR 0x02, CHR 0xc5, CHR 0xe6, CHR 0xee, CHR 0xc4,
      CHR 0x69, CHR 0x3d, CHR 0x9a, CHR 0x06, CHR 0x98, CHR 0xaf, CHR 0xf9, CHR 0x5c,
      CHR 0x2f, CHR 0xca, CHR 0xb5, CHR 0x07, CHR 0x12, CHR 0x46, CHR 0x7e, CHR 0xab,
      CHR 0x40, CHR 0x04, CHR 0x58, CHR 0x3e, CHR 0xb8, CHR 0xfb, CHR 0x7f, CHR 0x89,
      CHR 0x55, CHR 0xad, CHR 0x34, CHR 0x06, CHR 0x09, CHR 0xf4, CHR 0xb3, CHR 0x02,
      CHR 0x83, CHR 0xe4, CHR 0x88, CHR 0x83, CHR 0x25, CHR 0xf1, CHR 0x41, CHR 0x5a,
      CHR 0x08, CHR 0x51, CHR 0x25, CHR 0xe8, CHR 0xf7, CHR 0xcd, CHR 0xc9, CHR 0x9f,
      CHR 0xd9, CHR 0x1d, CHR 0xbd, CHR 0x72, CHR 0x80, CHR 0x37, CHR 0x3c, CHR 0x5b,
      CHR 0xd8, CHR 0x82, CHR 0x3e, CHR 0x31, CHR 0x56, CHR 0x34, CHR 0x8f, CHR 0x5b,
      CHR 0xae, CHR 0x6d, CHR 0xac, CHR 0xd4, CHR 0x36, CHR 0xc9, CHR 0x19, CHR 0xc6,
      CHR 0xdd, CHR 0x53, CHR 0xe2, CHR 0x34, CHR 0x87, CHR 0xda, CHR 0x03, CHR 0xfd,
      CHR 0x02, CHR 0x39, CHR 0x63, CHR 0x06, CHR 0xd2, CHR 0x48, CHR 0xcd, CHR 0xa0,
      CHR 0xe9, CHR 0x9f, CHR 0x33, CHR 0x42, CHR 0x0f, CHR 0x57, CHR 0x7e, CHR 0xe8,
      CHR 0xce, CHR 0x54, CHR 0xb6, CHR 0x70, CHR 0x80, CHR 0x28, CHR 0x0d, CHR 0x1e,
      CHR 0xc6, CHR 0x98, CHR 0x21, CHR 0xbc, CHR 0xb6, CHR 0xa8, CHR 0x83, CHR 0x93,
      CHR 0x96, CHR 0xf9, CHR 0x65, CHR 0xab, CHR 0x6f, CHR 0xf7, CHR 0x2a, CHR 0x70]"

section \<open>Auxiliary facts\<close>

subsection \<open>Evaluating the digest\<close>

text \<open>
  The digest of a concrete string is computed by rewriting. \<open>md5_step_norm\<close> brings
  every intermediate word back to its 32-bit numeral, so that the numerals stay small.
\<close>

lemma replicate_numeral: "replicate (numeral k) x = x # replicate (pred_numeral k) x"
  by (simp only: numeral_eq_Suc [of k] replicate_Suc)

lemma le_bytes_numeral:
  "le_bytes (numeral k) v = of_nat (v mod 256) # le_bytes (pred_numeral k) (v div 256)"
  by (simp only: numeral_eq_Suc [of k] le_bytes.simps)

lemma md5_step_norm:
  "md5_step f X (k, s, t) (a, b, c, d) =
     (d, word_of_nat (unat (b + rotl32 s (a + f b c d + X ! k + t))), b, c)"
  by simp

lemma str_to_tag_unfold:
  "str_to_tag str =
     le64 (take 8 (MD5_Final (MD5_Update MD5_Init (map of_char str) (length str)))) AND
     NOT (push_bit 63 1)"
  by (simp add: str_to_tag_def Let_def)

lemmas md5_eval = str_to_tag_unfold MD5_Init_def MD5_Update_def MD5_Final_def md5_pad_def
  replicate_numeral le_bytes_numeral md5_block_def md5_init_def md5_rounds_def
  md5_table1_def md5_table2_def md5_table3_def md5_table4_def
  md5_F_def md5_G_def md5_H_def md5_I_def rotl32_def le64_def md5_step_norm
  words_of.simps md5_body.simps

subsection \<open>The mask of \<^verbatim>\<open>str_to_tag\<close>\<close>

lemma and_not_bit_eq_take_bit:
  "LENGTH('a) = Suc n \<Longrightarrow> (x :: 'a::len word) AND NOT (push_bit n 1) = take_bit n x"
  by (rule bit_word_eqI) (auto simp: bit_simps)

lemma unat_take_bit_63: "unat (take_bit 63 (x :: 64 word)) < 2 ^ 63"
  using take_bit_nat_less_exp [of 63 "unat x"] by (simp add: unsigned_take_bit_eq)

lemma str_to_tag_take_bit:
  "str_to_tag str =
     take_bit 63 (le64 (take 8 (MD5_Final (MD5_Update MD5_Init (map of_char str) (length str)))))"
  unfolding str_to_tag_unfold by (rule and_not_bit_eq_take_bit) simp

subsection \<open>Decimal text\<close>

lemma of_char_digit_char: "d < 10 \<Longrightarrow> (of_char (digit_char d) :: nat) = 48 + d"
  by (simp add: digit_char_def)

lemma isdigit_digit_char: "d < 10 \<Longrightarrow> isdigit (digit_char d)"
  by (simp add: isdigit_def of_char_digit_char)

lemma of_char_digit_char_int: "d < 10 \<Longrightarrow> (of_char (digit_char d) :: int) = 48 + int d"
proof -
  assume d: "d < 10"
  have "(of_char (digit_char d) :: int) = int (of_char (digit_char d))"
    by (simp only: of_nat_of_char)
  with d show ?thesis by (simp add: of_char_digit_char)
qed

lemma fmt_u_digits: "c \<in> set (fmt_u n) \<Longrightarrow> isdigit c"
proof (induction n arbitrary: c rule: fmt_u.induct)
  case (1 n)
  show ?case
  proof (cases "n < 10")
    case True
    with "1.prems" show ?thesis
      by (subst (asm) fmt_u.simps) (simp add: isdigit_digit_char)
  next
    case False
    with "1.prems" have "c \<in> set (fmt_u (n div 10)) \<or> c = digit_char (n mod 10)"
      by (subst (asm) fmt_u.simps) auto
    with False "1.IH" show ?thesis by (auto simp: isdigit_digit_char)
  qed
qed

lemma fmt_u_not_Nil: "fmt_u n \<noteq> []"
  by (subst fmt_u.simps) simp

lemma digits_value_fmt_u:
  "digits_value acc (fmt_u n @ rest) = digits_value (acc * 10 ^ length (fmt_u n) + int n) rest"
proof (induction n arbitrary: acc rest rule: fmt_u.induct)
  case (1 n)
  show ?case
  proof (cases "n < 10")
    case True
    then show ?thesis
      by (subst (1 2) fmt_u.simps) (simp add: isdigit_digit_char of_char_digit_char_int mult.commute)
  next
    case False
    have d: "n mod 10 < 10" by simp
    have "digits_value acc (fmt_u n @ rest) =
          digits_value acc (fmt_u (n div 10) @ digit_char (n mod 10) # rest)"
      using False by (subst fmt_u.simps) simp
    also have "\<dots> = digits_value (acc * 10 ^ length (fmt_u (n div 10)) + int (n div 10))
                       (digit_char (n mod 10) # rest)"
      using "1.IH" [OF False] .
    also have "\<dots> = digits_value
        (10 * (acc * 10 ^ length (fmt_u (n div 10)) + int (n div 10)) + int (n mod 10)) rest"
      using d by (simp add: isdigit_digit_char of_char_digit_char_int)
    also have "10 * (acc * 10 ^ length (fmt_u (n div 10)) + int (n div 10)) + int (n mod 10) =
               acc * 10 ^ length (fmt_u n) + int n"
    proof -
      have "length (fmt_u n) = Suc (length (fmt_u (n div 10)))"
        using False by (subst fmt_u.simps) simp
      moreover have "int n = 10 * int (n div 10) + int (n mod 10)"
        by (metis mult_div_mod_eq of_nat_add of_nat_mult of_nat_numeral)
      ultimately show ?thesis by (simp add: algebra_simps)
    qed
    finally show ?thesis .
  qed
qed

lemma digits_value_fmt_u_0: "digits_value 0 (fmt_u n) = int n"
  using digits_value_fmt_u [of 0 n "[]"] by simp

lemma length_fmt_u: "0 < k \<Longrightarrow> n < 10 ^ k \<Longrightarrow> length (fmt_u n) \<le> k"
proof (induction n arbitrary: k rule: fmt_u.induct)
  case (1 n)
  show ?case
  proof (cases "n < 10")
    case True
    with "1.prems" show ?thesis by (subst fmt_u.simps) simp
  next
    case False
    with "1.prems" obtain j where k: "k = Suc j"
      by (cases k) auto
    have "0 < j"
    proof (rule ccontr)
      assume "\<not> 0 < j"
      with k "1.prems" False show False by simp
    qed
    moreover have "n div 10 < 10 ^ j"
      using "1.prems" k by (simp add: less_mult_imp_div_less mult.commute)
    ultimately have "length (fmt_u (n div 10)) \<le> j"
      using "1.IH" [OF False] by blast
    then show ?thesis
      using False k by (subst fmt_u.simps) simp
  qed
qed

lemma isdigit_not_sign: "isdigit c \<Longrightarrow> \<not> isspace c \<and> c \<noteq> CHR ''-'' \<and> c \<noteq> CHR ''+''"
  by (auto simp: isdigit_def isspace_def)

lemma strtoll_fmt_lld:
  assumes "LLONG_MIN \<le> i" and "i \<le> LLONG_MAX"
  shows "strtoll (fmt_lld i) = i"
proof (cases "i < 0")
  case True
  then have "strtoll (fmt_lld i) = max LLONG_MIN (- digits_value 0 (fmt_u (nat (- i))))"
    by (simp add: strtoll_def fmt_lld_def isspace_def)
  with True assms show ?thesis by (simp add: digits_value_fmt_u_0)
next
  case False
  obtain c cs where ccs: "fmt_u (nat i) = c # cs"
    using fmt_u_not_Nil [of "nat i"] by (cases "fmt_u (nat i)") auto
  then have "isdigit c"
    using fmt_u_digits [of c "nat i"] by simp
  then have "strtoll (c # cs) = min LLONG_MAX (digits_value 0 (c # cs))"
    using isdigit_not_sign [of c] by (simp add: strtoll_def)
  with False ccs assms show ?thesis
    using digits_value_fmt_u_0 [of "nat i"] by (simp add: fmt_lld_def)
qed

lemma length_fmt_lld:
  assumes "LLONG_MIN \<le> i" and "i \<le> LLONG_MAX"
  shows "length (fmt_lld i) \<le> 20"
proof -
  have "nat \<bar>i\<bar> < 10 ^ 19"
    using assms by (simp add: LLONG_MIN_def LLONG_MAX_def)
  then have "length (fmt_u (nat \<bar>i\<bar>)) \<le> 19"
    by (intro length_fmt_u) simp_all
  then show ?thesis
    by (cases "i < 0") (simp_all add: fmt_lld_def abs_if)
qed

lemma sint_range: "LLONG_MIN \<le> sint (t :: mtag_t) \<and> sint t \<le> LLONG_MAX"
  using sint_ge [of t] sint_lt [of t] by (simp add: LLONG_MIN_def LLONG_MAX_def)

lemma name_alloc_tag_state: "name (alloc_tag_state t) = fmt_lld (sint t)"
  using length_fmt_lld [of "sint t"] sint_range [of t]
  by (simp add: alloc_tag_state_def snprintf_def)

lemma data_alloc_tag_state: "data (alloc_tag_state t) = Some t"
  by (simp add: alloc_tag_state_def)

lemma atoll_fmt_lld_sint: "atoll (fmt_lld (sint (t :: mtag_t))) = t"
  using strtoll_fmt_lld [of "sint t"] sint_range [of t] by (simp add: atoll_def)

lemma alloc_tag_state_atoll: "alloc_tag_state (atoll (name (alloc_tag_state t))) = alloc_tag_state t"
  by (simp add: name_alloc_tag_state atoll_fmt_lld_sint)

subsection \<open>Signed and unsigned reading of a tag\<close>

lemma sint_eq_unat:
  assumes "unat (t :: mtag_t) < 2 ^ 63"
  shows "sint t = int (unat t)"
proof -
  have "int (unat t) < int (2 ^ 63)"
    using assms by (simp only: of_nat_less_iff)
  then have lt: "uint t < 2 ^ 63"
    by simp
  have "sint t = signed_take_bit 63 (uint t)"
    using sint_uint [of t] by simp
  also have "\<dots> = uint t"
  proof (rule signed_take_bit_int_eq_self)
    have "- (2 ^ 63) \<le> (0 :: int)" by simp
    also have "0 \<le> uint t" by simp
    finally show "- (2 ^ 63) \<le> uint t" .
    show "uint t < 2 ^ 63" by (rule lt)
  qed
  also have "\<dots> = int (unat t)" by simp
  finally show ?thesis .
qed

subsection \<open>The store and the emission loop\<close>

lemma tag_states_ok_start: "tag_states_ok start"
  by (simp add: tag_states_ok_def start_def)

lemma tag_states_ok_set_state:
  "tag_states_ok st \<Longrightarrow> tag_states_ok (set_state owner nm sy (alloc_tag_state t) st)"
  by (auto simp: tag_states_ok_def set_state_def name_alloc_tag_state data_alloc_tag_state)

lemma tag_states_ok_stree: "stree st' = stree st \<Longrightarrow> tag_states_ok st' = tag_states_ok st"
  by (simp add: tag_states_ok_def)

lemma get_state_expr_stree:
  "stree st' = stree st \<Longrightarrow> get_state_expr h st' owner e = get_state_expr h st owner e"
  by (simp add: get_state_expr_def split: prod.splits option.splits)

lemma spec_caller_row_stree:
  "stree st' = stree st \<Longrightarrow> my_id st' = my_id st \<Longrightarrow>
   spec_caller_row h st' c p = spec_caller_row h st c p"
  using get_state_expr_stree [of st' st h "my_id st" "snd p"] by (simp add: spec_caller_row_def)

lemma match_call_info_loop_frame:
  "stree (match_call_info_loop h c i args st) = stree st \<and>
   my_id (match_call_info_loop h c i args st) = my_id st \<and>
   mtag_about (match_call_info_loop h c i args st) = mtag_about st"
  by (induction args arbitrary: i st)
     (auto simp: sql_insert_caller_info_def split: option.splits)

lemma match_call_info_loop_rows:
  "tag_states_ok st \<Longrightarrow>
   caller_info (match_call_info_loop h c (int n - 1) args st) =
     caller_info st @ concat (map (spec_caller_row h st c) (enumerate n args))"
proof (induction args arbitrary: n st)
  case Nil
  then show ?case by simp
next
  case (Cons a args)
  have ih: "caller_info (match_call_info_loop h c (int n) args st') =
            caller_info st' @ concat (map (spec_caller_row h st' c) (enumerate (Suc n) args))"
    if "tag_states_ok st'" for st'
    using Cons.IH [OF that, of "Suc n"] by simp
  show ?case
  proof (cases "get_state_expr h st (my_id st) a")
    case None
    then have "spec_caller_row h st c (n, a) = []"
      by (simp add: spec_caller_row_def)
    with None show ?thesis
      using ih [OF Cons.prems] by simp
  next
    case (Some state)
    note bound = this
    show ?thesis
    proof (cases "data state")
      case None
      with bound have "spec_caller_row h st c (n, a) = []"
        by (simp add: spec_caller_row_def)
      with None bound show ?thesis
        using ih [OF Cons.prems] by simp
    next
      case (Some tag)
      let ?st = "sql_insert_caller_info c MEMORY_TAG (int n) ''$'' (name state) st"
      have same: "stree ?st = stree st" "my_id ?st = my_id st"
        by (simp_all add: sql_insert_caller_info_def)
      have ok: "tag_states_ok ?st"
        using Cons.prems tag_states_ok_stree [OF same(1)] by simp
      have nm: "name state = fmt_lld (sint tag)"
      proof -
        obtain k where "stree st k = Some state"
          using bound by (auto simp: get_state_expr_def split: prod.splits option.splits)
        with Cons.prems Some show ?thesis
          unfolding tag_states_ok_def by blast
      qed
      have rows: "map (spec_caller_row h ?st c) (enumerate (Suc n) args) =
                  map (spec_caller_row h st c) (enumerate (Suc n) args)"
        using spec_caller_row_stree [OF same] by simp
      have cur: "caller_info ?st = caller_info st @ spec_caller_row h st c (n, a)"
        using bound Some nm by (simp add: spec_caller_row_def sql_insert_caller_info_def)
      have "caller_info (match_call_info_loop h c (int n - 1) (a # args) st) =
            caller_info (match_call_info_loop h c (int n) args ?st)"
        using bound Some by simp
      also have "\<dots> = caller_info ?st @ concat (map (spec_caller_row h ?st c) (enumerate (Suc n) args))"
        by (rule ih [OF ok])
      also have "\<dots> = (caller_info st @ spec_caller_row h st c (n, a)) @
                         concat (map (spec_caller_row h st c) (enumerate (Suc n) args))"
        by (simp only: rows cur)
      also have "\<dots> = caller_info st @ concat (map (spec_caller_row h st c) (enumerate n (a # args)))"
        by (simp only: enumerate_simps list.map concat.simps append_assoc)
      finally show ?thesis .
    qed
  qed
qed

lemma match_call_info_rows:
  "tag_states_ok st \<Longrightarrow>
   caller_info (match_call_info h (EXPR_CALL f args) st) =
     caller_info st @ spec_caller_rows h st (EXPR_CALL f args) args"
  using match_call_info_loop_rows [of st h "EXPR_CALL f args" 0 args]
  by (simp add: match_call_info_def spec_caller_rows_def)

subsection \<open>The two outcomes of \<^verbatim>\<open>alloc_assign\<close>\<close>

lemma alloc_assign_resolved:
  assumes "strip_expr h r = EXPR_CALL (EXPR_SYMBOL fsym) args"
      and "expr_to_str_sym h (strip_expr h l) = (Some nm, Some sy)"
  shows "alloc_assign h fn (EXPR_ASSIGNMENT (of_char CHR ''='') l r) st =
           set_state (my_id st) nm sy
             (alloc_tag_state
                (str_to_tag (snprintf 256 (alloc_context h (Some nm) (expr_to_str h (strip_expr h r))))))
             (sql_insert_mtag_about
                (str_to_tag (snprintf 256 (alloc_context h (Some nm) (expr_to_str h (strip_expr h r)))))
                (Some nm) (expr_to_str h (strip_expr h r)) st)"
  using assms by (simp add: alloc_assign_def Let_def sql_insert_mtag_about_def)

lemma alloc_assign_unresolved:
  assumes "strip_expr h r = EXPR_CALL (EXPR_SYMBOL fsym) args"
      and "expr_to_str_sym h (strip_expr h l) = (left_name, left_sym)"
      and "left_name = None \<or> left_sym = None"
  shows "alloc_assign h fn (EXPR_ASSIGNMENT (of_char CHR ''='') l r) st =
           sql_insert_mtag_about
             (str_to_tag (snprintf 256 (alloc_context h left_name (expr_to_str h (strip_expr h r)))))
             left_name (expr_to_str h (strip_expr h r)) st"
  using assms by (auto simp: alloc_assign_def Let_def split: option.splits)

subsection \<open>Running the host of the concrete runs\<close>

lemma spec_example_strip: "strip_expr (spec_host file func) = spec_strip_expr"
  and spec_example_str: "expr_to_str_sym (spec_host file func) = spec_expr_to_str_sym"
  and spec_example_var: "expr_to_var_sym (spec_host file func) = spec_expr_to_var_sym"
  and spec_example_file: "get_filename (spec_host file func) = file"
  and spec_example_func: "get_function (spec_host file func) = func"
  by (simp_all add: spec_host_def)

lemmas spec_host_simps = spec_example_strip spec_example_str spec_example_var
  spec_example_file spec_example_func spec_expr_to_str_sym_def spec_expr_to_var_sym_def
  expr_to_str_def var_def call_def assign_def local_sym_def extern_sym_def static_sym_def

subsection \<open>Tags of concrete strings\<close>

text \<open>
  Each value is the one that \<^verbatim>\<open>md5sum\<close> gives for the string: the first eight digest
  bytes read least significant byte first, top bit cleared.
\<close>

lemma tag_spec_example: "str_to_tag ''drv.c probe d alloc_dev()'' = 0x28f8710d10dd691d"
  by (simp add: md5_eval del: md5_step.simps)

lemma tag_a_foo: "str_to_tag ''a.c foo'' = 0x709620e112d3ccb8"
  by (simp add: md5_eval del: md5_step.simps)

lemma tag_b_foo: "str_to_tag ''b.c foo'' = 0x5b456730eaeba04d"
  by (simp add: md5_eval del: md5_step.simps)

lemma tag_long_context: "str_to_tag long_context = 0x74fe9e6fda7dac8c"
  by (simp add: long_context_def long_arg_def md5_eval del: md5_step.simps)

lemma tag_long_context_cut: "str_to_tag (take 255 long_context) = 0x1b33c349e8f7f3b4"
  by (simp add: long_context_def long_arg_def md5_eval del: md5_step.simps)

lemma tag_collision_a: "str_to_tag collision_a = 0x22b15f2525400579"
  by (simp add: collision_a_def md5_eval del: md5_step.simps)

lemma tag_collision_b: "str_to_tag collision_b = 0x22b15f2525400579"
  by (simp add: collision_b_def md5_eval del: md5_step.simps)

subsection \<open>The assignment with the long argument\<close>

lemma long_assign_context:
  "alloc_context (spec_host ''drv.c'' ''probe'') (Some ''d'')
     (expr_to_str (spec_host ''drv.c'' ''probe'')
        (strip_expr (spec_host ''drv.c'' ''probe'') (call ''kmalloc'' [var (local_sym long_arg)]))) =
   long_context"
  by (simp add: spec_host_simps alloc_context_def fmt_s_def long_context_def)

lemma long_assign_bound:
  "stree (alloc_assign (spec_host ''drv.c'' ''probe'') ''kmalloc''
            (assign (var (local_sym ''d'')) (call ''kmalloc'' [var (local_sym long_arg)])) start)
         (my_id start, ''d'', local_sym ''d'') =
     Some (alloc_tag_state (str_to_tag (take 255 long_context)))"
proof -
  let ?h = "spec_host ''drv.c'' ''probe''"
  let ?r = "call ''kmalloc'' [var (local_sym long_arg)]"
  have r: "strip_expr ?h ?r = EXPR_CALL (EXPR_SYMBOL (Some (extern_sym ''kmalloc''))) [var (local_sym long_arg)]"
    by (simp add: spec_example_strip call_def var_def)
  have l: "expr_to_str_sym ?h (strip_expr ?h (var (local_sym ''d''))) = (Some ''d'', Some (local_sym ''d''))"
    by (simp add: spec_host_simps)
  show ?thesis
    unfolding assign_def alloc_assign_resolved [OF r l] long_assign_context
    by (simp add: set_state_def sql_insert_mtag_about_def snprintf_def)
qed

section \<open>The claims\<close>

subsection \<open>C1: the tag of an allocation site\<close>

text \<open>
  C1, as the code has it. For a plain assignment whose stripped right side is a call of a
  named function and whose stripped destination renders to a name \<open>nm\<close> with a symbol
  \<open>sy\<close>, \<^verbatim>\<open>alloc_assign\<close> binds to \<open>(my_id, nm, sy)\<close> the tag state of
  \<open>str_to_tag\<close> of the first 255 bytes of the context; the context is file, function,
  destination text and source text joined by single spaces. When the context has at most
  255 bytes the tag is that of the whole context.
\<close>

theorem alloc_assign_tag:
  assumes "strip_expr h r = EXPR_CALL (EXPR_SYMBOL fsym) args"
      and "expr_to_str_sym h (strip_expr h l) = (Some nm, Some sy)"
  shows "stree (alloc_assign h fn (EXPR_ASSIGNMENT (of_char CHR ''='') l r) st) (my_id st, nm, sy) =
           Some (alloc_tag_state
             (str_to_tag (take 255 (alloc_context h (Some nm) (expr_to_str h (strip_expr h r)))))) \<and>
         (length (alloc_context h (Some nm) (expr_to_str h (strip_expr h r))) \<le> 255 \<longrightarrow>
          stree (alloc_assign h fn (EXPR_ASSIGNMENT (of_char CHR ''='') l r) st) (my_id st, nm, sy) =
           Some (alloc_tag_state
             (str_to_tag (alloc_context h (Some nm) (expr_to_str h (strip_expr h r)))))) \<and>
         (\<forall>rt. expr_to_str h (strip_expr h r) = Some rt \<longrightarrow>
            alloc_context h (Some nm) (expr_to_str h (strip_expr h r)) =
              get_filename h @ '' '' @ get_function h @ '' '' @ nm @ '' '' @ rt)"
  unfolding alloc_assign_resolved [OF assms]
  by (simp add: set_state_def sql_insert_mtag_about_def snprintf_def alloc_context_def fmt_s_def)

text \<open>
  The example of the spec: \<^verbatim>\<open>d = alloc_dev()\<close> in function \<^verbatim>\<open>probe\<close> of file
  \<^verbatim>\<open>drv.c\<close> binds to \<^verbatim>\<open>d\<close> the tag of \<^verbatim>\<open>drv.c probe d alloc_dev()\<close>.
\<close>

theorem alloc_assign_tag_witness:
  "stree (alloc_assign (spec_host ''drv.c'' ''probe'') ''alloc_dev''
            (assign (var (local_sym ''d'')) (call ''alloc_dev'' [])) start)
         (my_id start, ''d'', local_sym ''d'') =
     Some (alloc_tag_state (str_to_tag ''drv.c probe d alloc_dev()'')) \<and>
   data (alloc_tag_state (str_to_tag ''drv.c probe d alloc_dev()'')) = Some 0x28f8710d10dd691d"
  using alloc_assign_tag [of "spec_host ''drv.c'' ''probe''" "call ''alloc_dev'' []"
      "Some (extern_sym ''alloc_dev'')" "[]" "var (local_sym ''d'')" "''d''" "local_sym ''d''"
      "''alloc_dev''" start]
  by (simp add: spec_host_simps alloc_context_def fmt_s_def data_alloc_tag_state tag_spec_example)

text \<open>
  C1 as stated fails when the context does not fit the buffer of 256 bytes. For
  \<^verbatim>\<open>d = kmalloc(nnn...n)\<close> with an argument of 233 bytes the context has 256 bytes;
  the tag bound to \<^verbatim>\<open>d\<close> is that of its first 255 bytes, \<open>0x1b33c349e8f7f3b4\<close>, and
  the tag of the context is \<open>0x74fe9e6fda7dac8c\<close>.
\<close>

theorem alloc_assign_long_context:
  "map_option data
     (stree (alloc_assign (spec_host ''drv.c'' ''probe'') ''kmalloc''
               (assign (var (local_sym ''d'')) (call ''kmalloc'' [var (local_sym long_arg)])) start)
            (my_id start, ''d'', local_sym ''d'')) \<noteq>
   Some (Some (str_to_tag long_context))"
  unfolding long_assign_bound
  by (simp add: data_alloc_tag_state tag_long_context tag_long_context_cut)

subsection \<open>C4: a destination that does not resolve\<close>

text \<open>
  C4 at the input \<^verbatim>\<open>*get_dev().buf = kmalloc(8)\<close>, whose destination renders to a text
  and to no symbol: the store stays empty, and the row of \<^verbatim>\<open>mtag_about\<close> is inserted
  all the same, because \<^verbatim>\<open>sql_insert_mtag_about\<close> is called before the test of
  \<^verbatim>\<open>left_name\<close> and \<^verbatim>\<open>left_sym\<close>.
\<close>

theorem alloc_assign_unresolved_metadata:
  "alloc_assign (spec_host ''drv.c'' ''probe'') ''kmalloc''
     (assign (EXPR_DEREF (EXPR_PREOP (of_char CHR ''*'') (call ''get_dev'' [])) ''buf'')
             (call ''kmalloc'' [EXPR_VALUE 8])) start =
   start\<lparr>mtag_about :=
     [(str_to_tag ''drv.c probe *get_dev().buf kmalloc(8)'', Some ''*get_dev().buf'', Some ''kmalloc(8)'')]\<rparr>"
proof -
  let ?h = "spec_host ''drv.c'' ''probe''"
  let ?l = "EXPR_DEREF (EXPR_PREOP (of_char CHR ''*'') (call ''get_dev'' [])) ''buf''"
  let ?r = "call ''kmalloc'' [EXPR_VALUE 8]"
  have r: "strip_expr ?h ?r = EXPR_CALL (EXPR_SYMBOL (Some (extern_sym ''kmalloc''))) [EXPR_VALUE 8]"
    by (simp add: spec_example_strip call_def var_def)
  have l: "expr_to_str_sym ?h (strip_expr ?h ?l) = (Some ''*get_dev().buf'', None)"
    by (simp add: spec_host_simps char_of_eq_iff)
  have t: "expr_to_str ?h (strip_expr ?h ?r) = Some ''kmalloc(8)''"
    by (simp add: spec_host_simps fmt_lld_def fmt_u.simps digit_char_def char_of_eq_iff)
  show ?thesis
    unfolding assign_def alloc_assign_unresolved [OF r l disjI2 [OF refl]] t
    by (simp add: sql_insert_mtag_about_def snprintf_def alloc_context_def fmt_s_def
        spec_host_simps start_def)
qed


end
